theory Spec2Isabelle
  imports Main
begin

section \<open>Python strings\<close>

text \<open>
  A Python \<open>str\<close> is a sequence of Unicode code points, so it is modelled as a list of
  natural numbers (Cyrillic letters do not fit the 8-bit \<open>char\<close> of HOL).
  \<open>ascii\<close> embeds an ASCII literal.
\<close>

type_synonym pystr = "nat list"

definition ascii :: "string \<Rightarrow> pystr" where
  "ascii s = map of_char s"

text \<open>
  \<open>isspace\<close> is the set of code points that \<open>str.isspace\<close> accepts; \<open>str.strip()\<close>
  without arguments and the \<open>\s\<close> class of \<open>re\<close> on \<open>str\<close> patterns use the same set.
\<close>

definition isspace :: "nat \<Rightarrow> bool" where
  "isspace c \<longleftrightarrow>
     (9 \<le> c \<and> c \<le> 13) \<or> (28 \<le> c \<and> c \<le> 32) \<or> c = 133 \<or> c = 160 \<or> c = 5760 \<or>
     (8192 \<le> c \<and> c \<le> 8202) \<or> c = 8232 \<or> c = 8233 \<or> c = 8239 \<or> c = 8287 \<or> c = 12288"

definition strip :: "pystr \<Rightarrow> pystr" where
  "strip s = rev (dropWhile isspace (rev (dropWhile isspace s)))"

text \<open>
  \<open>str.lower()\<close> on the Basic Latin block and on the Cyrillic capitals
  U+0400..U+042F, which cover the alphabet \<open>WordValidator\<close> admits; every other code
  point is kept as it is.
\<close>

definition lower_cp :: "nat \<Rightarrow> nat" where
  "lower_cp c =
     (if 65 \<le> c \<and> c \<le> 90 then c + 32
      else if 1024 \<le> c \<and> c \<le> 1039 then c + 80
      else if 1040 \<le> c \<and> c \<le> 1071 then c + 32
      else c)"

definition lower :: "pystr \<Rightarrow> pystr" where
  "lower s = map lower_cp s"

section \<open>Schemas (src/core/schemas.py)\<close>

datatype RequestType = RT_SYNONYM | RT_ANTONYM | RT_DEFINITION | RT_EXAMPLES

datatype ProcessingStatus = PENDING | PROCESSING | COMPLETED | FAILED

datatype AssociationType = SYNONYM | ANTONYM

fun association_type_value :: "AssociationType \<Rightarrow> pystr" where
  "association_type_value SYNONYM = ascii ''synonym''"
| "association_type_value ANTONYM = ascii ''antonym''"

record WordAssociation =
  wa_word :: pystr
  wa_type :: AssociationType

record LinguisticResponse =
  lr_request_id :: nat
  lr_original_text :: pystr
  lr_request_type :: RequestType
  lr_status :: ProcessingStatus
  lr_result :: "WordAssociation list option"
  lr_error :: "pystr option"
  lr_execution_time :: "nat option"

section \<open>Exceptions (src/core/exceptions/base.py)\<close>

text \<open>
  The exception classes that the \<open>except\<close> clauses of the repository tell apart.
  The text carried by \<open>ValueError\<close>, \<open>SQLAlchemyError\<close> and \<open>OtherException\<close> is what
  \<open>str(e)\<close> returns; \<open>AppError\<close> carries message, code, status code and details.
  \<open>OtherException\<close> stands for every other subclass of \<open>Exception\<close>.
\<close>

datatype exn =
    ValueError pystr
  | SQLAlchemyError pystr
  | AppError pystr pystr nat "(pystr \<times> pystr) list"
  | OtherException pystr

fun str_exn :: "exn \<Rightarrow> pystr" where
  "str_exn (ValueError m) = m"
| "str_exn (SQLAlchemyError m) = m"
| "str_exn (AppError message code status_code details) = message"
| "str_exn (OtherException m) = m"

definition DatabaseError :: "pystr \<Rightarrow> (pystr \<times> pystr) list \<Rightarrow> exn" where
  "DatabaseError message details = AppError message (ascii ''database_error'') 500 details"

definition ExternalAPIError :: "pystr \<Rightarrow> (pystr \<times> pystr) list \<Rightarrow> exn" where
  "ExternalAPIError message details = AppError message (ascii ''external_api_error'') 502 details"

section \<open>Validators (src/core/validators.py)\<close>

text \<open>
  The pattern \<open>^[\<dots>]+$\<close> with the class: a..ya (U+0430..U+044F), yo (U+0451),
  A..YA (U+0410..U+042F), YO (U+0401), whitespace and the hyphen. Since the class
  contains the newline, \<open>$\<close> before a final newline accepts nothing that the class
  does not accept anyway.
\<close>

definition cyrillic_class :: "nat \<Rightarrow> bool" where
  "cyrillic_class c \<longleftrightarrow>
     (1072 \<le> c \<and> c \<le> 1103) \<or> c = 1105 \<or> (1040 \<le> c \<and> c \<le> 1071) \<or> c = 1025 \<or>
     isspace c \<or> c = 45"

definition is_cyrillic :: "pystr \<Rightarrow> bool" where
  "is_cyrillic text = (if text = [] then False else list_all cyrillic_class text)"

definition validate_word :: "pystr \<Rightarrow> exn + unit" where
  "validate_word text =
     (if is_cyrillic text then Inr ()
      else Inl (ValueError
        [1058, 1077, 1082, 1089, 1090, 32, 1076, 1086, 1083, 1078, 1077, 1085, 32, 1089, 1086,
         1076, 1077, 1088, 1078, 1072, 1090, 1100, 32, 1090, 1086, 1083, 1100, 1082, 1086, 32,
         1082, 1080, 1088, 1080, 1083, 1083, 1080, 1095, 1077, 1089, 1082, 1080, 1077, 32, 1089,
         1080, 1084, 1074, 1086, 1083, 1099, 44, 32, 1087, 1088, 1086, 1073, 1077, 1083, 1099,
         32, 1080, 1083, 1080, 32, 1076, 1077, 1092, 1080, 1089, 1099]))"

section \<open>Database models (src/infrastructure/db/models.py)\<close>

text \<open>
  The JSONB column holds \<open>{"items": [{"word": \<dots>, "type": \<dots>}, \<dots>]}\<close>: a dictionary
  from keys to lists of items, each item with its two strings as stored.
\<close>

record json_item =
  item_word :: pystr
  item_type :: pystr

type_synonym jsonb = "(pystr \<times> json_item list) list"

record WordDictionary =
  wd_id :: nat
  wd_word :: pystr
  wd_associations :: jsonb
  wd_updated_at :: nat

record RequestHistory =
  rh_id :: nat
  rh_user_id :: "nat option"
  rh_source :: pystr
  rh_original_text :: pystr
  rh_created_at :: nat

section \<open>The world outside the service\<close>

text \<open>
  The mutable state: the two tables, and the list of words for which the language-model
  chain has been invoked (one entry per invocation).
\<close>

record world =
  word_dictionary :: "WordDictionary list"
  request_history :: "RequestHistory list"
  llm_invocations :: "pystr list"

record AnalysisResponse =
  is_exists :: bool
  synonyms :: "pystr list"
  antonyms :: "pystr list"

datatype 'a outcome = Returns 'a | Raises exn

text \<open>
  What the collaborators do during one request: for each call on the database session
  whether it raises (\<open>None\<close>: it returns), what \<open>analysis_chain.ainvoke\<close> does, and
  the values the database and \<open>uuid4\<close> generate.
\<close>

record env =
  env_select :: "exn option"
  env_llm :: "AnalysisResponse outcome"
  env_upsert_execute :: "exn option"
  env_upsert_commit :: "exn option"
  env_create_commit :: "exn option"
  env_create_refresh :: "exn option"
  env_dictionary_uuid :: nat
  env_history_uuid :: nat
  env_request_uuid :: nat
  env_now :: nat

section \<open>Repositories (src/infrastructure/repositories)\<close>

definition get_by_word :: "env \<Rightarrow> pystr \<Rightarrow> world \<Rightarrow> exn + WordDictionary option" where
  "get_by_word env w db =
     (case env_select env of
        Some e \<Rightarrow> Inl e
      | None \<Rightarrow> Inr (find (\<lambda>row. wd_word row = w) (word_dictionary db)))"

text \<open>
  \<open>INSERT \<dots> ON CONFLICT (word) DO UPDATE SET associations = \<dots>\<close>: the row with this
  word gets the new associations, and a new row is added when there is none.
\<close>

definition new_WordDictionary :: "env \<Rightarrow> pystr \<Rightarrow> jsonb \<Rightarrow> WordDictionary" where
  "new_WordDictionary env w associations =
     \<lparr>wd_id = env_dictionary_uuid env, wd_word = w, wd_associations = associations,
      wd_updated_at = env_now env\<rparr>"

definition insert_on_conflict_do_update ::
  "env \<Rightarrow> pystr \<Rightarrow> jsonb \<Rightarrow> WordDictionary list \<Rightarrow> WordDictionary list" where
  "insert_on_conflict_do_update env w associations rows =
     (if w \<in> set (map wd_word rows)
      then map (\<lambda>row. if wd_word row = w then row\<lparr>wd_associations := associations\<rparr> else row) rows
      else rows @ [new_WordDictionary env w associations])"

definition upsert_message :: pystr where
  "upsert_message =
     [1054, 1096, 1080, 1073, 1082, 1072, 32, 1087, 1088, 1080, 32, 1089, 1086, 1093, 1088,
      1072, 1085, 1077, 1085, 1080, 1080, 32, 1089, 1083, 1086, 1074, 1072, 32, 1074, 32,
      1041, 1044]"

definition create_message :: pystr where
  "create_message =
     [1054, 1096, 1080, 1073, 1082, 1072, 32, 1087, 1088, 1080, 32, 1089, 1086, 1079, 1076,
      1072, 1085, 1080, 1080, 32, 1079, 1072, 1087, 1080, 1089, 1080, 32, 1074, 32, 1041, 1044]"

text \<open>
  \<open>except SQLAlchemyError as e: rollback; raise DatabaseError(message, {"error": str(e)})\<close>;
  any other exception leaves the \<open>try\<close> as it is.
\<close>

fun except_SQLAlchemyError :: "pystr \<Rightarrow> exn \<Rightarrow> exn" where
  "except_SQLAlchemyError message (SQLAlchemyError m) =
     DatabaseError message [(ascii ''error'', m)]"
| "except_SQLAlchemyError message e = e"

text \<open>
  The column \<open>word\<close> is \<open>String(255)\<close>: the database refuses the INSERT of a longer
  word with a data error, which SQLAlchemy raises as a \<open>SQLAlchemyError\<close>.
\<close>

definition value_too_long_message :: pystr where
  "value_too_long_message = ascii ''value too long for type character varying(255)''"

definition upsert :: "env \<Rightarrow> pystr \<Rightarrow> jsonb \<Rightarrow> world \<Rightarrow> (exn + WordDictionary) \<times> world" where
  "upsert env w associations db =
     (case env_upsert_execute env of
        Some e \<Rightarrow> (Inl (except_SQLAlchemyError upsert_message e), db)
      | None \<Rightarrow>
         (if length w > 255
          then (Inl (except_SQLAlchemyError upsert_message
                       (SQLAlchemyError value_too_long_message)), db)
          else
            (case env_upsert_commit env of
               Some e \<Rightarrow> (Inl (except_SQLAlchemyError upsert_message e), db)
             | None \<Rightarrow>
                (let rows = insert_on_conflict_do_update env w associations (word_dictionary db);
                     db' = db\<lparr>word_dictionary := rows\<rparr>
                 in case find (\<lambda>row. wd_word row = w) rows of
                      Some instance \<Rightarrow> (Inr instance, db')
                    | None \<Rightarrow>
                       (Inl (DatabaseError upsert_message [(ascii ''error'', [])]), db')))))"

text \<open>
  \<open>RequestHistory(source=\<dots>, original_text=\<dots>)\<close> as the database stores it: the
  identifier and the time are generated, no user is given.
\<close>

definition new_RequestHistory :: "env \<Rightarrow> pystr \<Rightarrow> pystr \<Rightarrow> RequestHistory" where
  "new_RequestHistory env source original_text =
     \<lparr>rh_id = env_history_uuid env, rh_user_id = None, rh_source = source,
      rh_original_text = original_text, rh_created_at = env_now env\<rparr>"

text \<open>
  \<open>BaseRepository.create\<close> as the service calls it on the history repository:
  \<open>add\<close>, \<open>commit\<close>, \<open>refresh\<close>. A failed commit is rolled back; once the commit has
  succeeded the row is in the table, whatever \<open>refresh\<close> does.
\<close>

definition create :: "env \<Rightarrow> pystr \<Rightarrow> pystr \<Rightarrow> world \<Rightarrow> (exn + RequestHistory) \<times> world" where
  "create env source original_text db =
     (let instance = new_RequestHistory env source original_text
      in case env_create_commit env of
           Some e \<Rightarrow> (Inl (except_SQLAlchemyError create_message e), db)
         | None \<Rightarrow>
            (let db' = db\<lparr>request_history := request_history db @ [instance]\<rparr>
             in case env_create_refresh env of
                  Some e \<Rightarrow> (Inl (except_SQLAlchemyError create_message e), db')
                | None \<Rightarrow> (Inr instance, db')))"

section \<open>The chain (src/services/linguistic/chains.py)\<close>

definition not_found_message :: "pystr \<Rightarrow> pystr" where
  "not_found_message w =
     [1057, 1083, 1086, 1074, 1086, 32, 39] @ w @
     [39, 32, 1085, 1077, 32, 1085, 1072, 1081, 1076, 1077, 1085, 1086, 32, 1074, 32, 1088,
      1091, 1089, 1089, 1082, 1086, 1084, 32, 1103, 1079, 1099, 1082, 1077, 46]"

definition ai_service_message :: pystr where
  "ai_service_message =
     [1054, 1096, 1080, 1073, 1082, 1072, 32, 1087, 1088, 1080, 32, 1086, 1073, 1088, 1072,
      1097, 1077, 1085, 1080, 1080, 32, 1082, 32, 65, 73, 32, 1089, 1077, 1088, 1074, 1080,
      1089, 1091]"

text \<open>
  \<open>analyze_word\<close> of chains.py. A \<open>ValueError\<close> raised inside the \<open>try\<close> (by the chain
  or by the existence check) is raised again as it is; any other exception becomes an
  \<open>ExternalAPIError\<close>.
\<close>

definition chains_analyze_word ::
  "env \<Rightarrow> pystr \<Rightarrow> world \<Rightarrow> (exn + WordAssociation list) \<times> world" where
  "chains_analyze_word env w db =
     (let db' = db\<lparr>llm_invocations := llm_invocations db @ [w]\<rparr>
      in case env_llm env of
           Raises e \<Rightarrow>
             (case e of
                ValueError m \<Rightarrow> (Inl (ValueError m), db')
              | _ \<Rightarrow> (Inl (ExternalAPIError ai_service_message
                              [(ascii ''error'', str_exn e), (ascii ''word'', w)]), db'))
         | Returns response \<Rightarrow>
             (if \<not> is_exists response then (Inl (ValueError (not_found_message w)), db')
              else (Inr (map (\<lambda>syn. \<lparr>wa_word = syn, wa_type = SYNONYM\<rparr>) (synonyms response) @
                         map (\<lambda>ant. \<lparr>wa_word = ant, wa_type = ANTONYM\<rparr>) (antonyms response)),
                    db')))"

section \<open>The graph (src/services/linguistic/graph.py)\<close>

record GraphState =
  gs_word :: pystr
  gs_result :: "WordAssociation list option"
  gs_error :: "pystr option"

text \<open>The dictionary a node returns: \<open>{"result": \<dots>}\<close> or \<open>{"error": \<dots>}\<close>.\<close>

datatype node_update = ResultUpdate "WordAssociation list" | ErrorUpdate pystr

definition process_analysis :: "env \<Rightarrow> GraphState \<Rightarrow> world \<Rightarrow> node_update \<times> world" where
  "process_analysis env state db =
     (case chains_analyze_word env (gs_word state) db of
        (Inr result, db') \<Rightarrow> (ResultUpdate result, db')
      | (Inl e, db') \<Rightarrow> (ErrorUpdate (str_exn e), db'))"

text \<open>
  The compiled graph has the single node \<open>analyzer\<close> between entry point and END:
  \<open>ainvoke\<close> runs it once and writes the keys it returned into the state.
\<close>

definition app_graph_ainvoke :: "env \<Rightarrow> GraphState \<Rightarrow> world \<Rightarrow> GraphState \<times> world" where
  "app_graph_ainvoke env inputs db =
     (case process_analysis env inputs db of
        (ResultUpdate result, db') \<Rightarrow> (inputs\<lparr>gs_result := Some result\<rparr>, db')
      | (ErrorUpdate error, db') \<Rightarrow> (inputs\<lparr>gs_error := Some error\<rparr>, db'))"

section \<open>The service (src/services/linguistic/service.py)\<close>

record analysis =
  result :: "WordAssociation list option"
  error :: "pystr option"
  status :: ProcessingStatus

fun truthy :: "'a list option \<Rightarrow> bool" where
  "truthy None = False"
| "truthy (Some xs) = (xs \<noteq> [])"

definition dict_get :: "jsonb \<Rightarrow> pystr \<Rightarrow> json_item list \<Rightarrow> json_item list" where
  "dict_get d key dflt = (case map_of d key of Some v \<Rightarrow> v | None \<Rightarrow> dflt)"

definition validation_error_text :: pystr where
  "validation_error_text = ascii ''1 validation error for WordAssociation''"

text \<open>
  \<open>WordAssociation(**item)\<close>: pydantic accepts the two values of \<open>AssociationType\<close>
  and raises its \<open>ValidationError\<close>, a subclass of \<open>ValueError\<close>, on any other string
  (only the first line of its text is kept here).
\<close>

definition WordAssociation_of_item :: "json_item \<Rightarrow> exn + WordAssociation" where
  "WordAssociation_of_item item =
     (if item_type item = ascii ''synonym''
        then Inr \<lparr>wa_word = item_word item, wa_type = SYNONYM\<rparr>
      else if item_type item = ascii ''antonym''
        then Inr \<lparr>wa_word = item_word item, wa_type = ANTONYM\<rparr>
      else Inl (ValueError validation_error_text))"

fun associations_of_items :: "json_item list \<Rightarrow> exn + WordAssociation list" where
  "associations_of_items [] = Inr []"
| "associations_of_items (item # items) =
     (case WordAssociation_of_item item of
        Inl e \<Rightarrow> Inl e
      | Inr a \<Rightarrow>
         (case associations_of_items items of
            Inl e \<Rightarrow> Inl e
          | Inr rest \<Rightarrow> Inr (a # rest)))"

definition model_dump :: "WordAssociation \<Rightarrow> json_item" where
  "model_dump a = \<lparr>item_word = wa_word a, item_type = association_type_value (wa_type a)\<rparr>"

definition internal_error_message :: pystr where
  "internal_error_message =
     [1055, 1088, 1086, 1080, 1079, 1086, 1096, 1083, 1072, 32, 1074, 1085, 1091, 1090, 1088,
      1077, 1085, 1085, 1103, 1103, 32, 1086, 1096, 1080, 1073, 1082, 1072, 32, 1087, 1088,
      1080, 32, 1072, 1085, 1072, 1083, 1080, 1079, 1077, 32, 1089, 1083, 1086, 1074, 1072]"

text \<open>
  The body of the \<open>try\<close> of \<open>LinguisticService.analyze_word\<close>, entered with the word
  already stripped and lowered: it returns the dictionary or the exception that leaves
  the \<open>try\<close>, with the world as it is at that moment.
\<close>

definition analyze_word_try ::
  "env \<Rightarrow> pystr \<Rightarrow> pystr \<Rightarrow> world \<Rightarrow> (exn + analysis) \<times> world" where
  "analyze_word_try env w source db =
     (case get_by_word env w db of
        Inl e \<Rightarrow> (Inl e, db)
      | Inr (Some cached_entry) \<Rightarrow>
         (case associations_of_items (dict_get (wd_associations cached_entry) (ascii ''items'') []) of
            Inl e \<Rightarrow> (Inl e, db)
          | Inr associations \<Rightarrow>
             (case create env source w db of
                (Inl e, db1) \<Rightarrow> (Inl e, db1)
              | (Inr _, db1) \<Rightarrow>
                 (Inr \<lparr>result = Some associations, error = None, status = COMPLETED\<rparr>, db1)))
      | Inr None \<Rightarrow>
         (case app_graph_ainvoke env \<lparr>gs_word = w, gs_result = None, gs_error = None\<rparr> db of
            (result_state, db1) \<Rightarrow>
             (let result_data = gs_result result_state;
                  error_data = gs_error result_state
              in case (case result_data of
                         Some (item # items) \<Rightarrow>
                           (case upsert env w [(ascii ''items'', map model_dump (item # items))] db1 of
                              (Inl e, db2) \<Rightarrow> (Some e, db2)
                            | (Inr _, db2) \<Rightarrow> (None, db2))
                       | _ \<Rightarrow> (None, db1)) of
                   (Some e, db2) \<Rightarrow> (Inl e, db2)
                 | (None, db2) \<Rightarrow>
                    (case create env source w db2 of
                       (Inl e, db3) \<Rightarrow> (Inl e, db3)
                     | (Inr _, db3) \<Rightarrow>
                        (Inr \<lparr>result = result_data, error = error_data,
                              status = (if \<not> truthy error_data then COMPLETED else FAILED)\<rparr>,
                         db3)))))"

text \<open>The three \<open>except\<close> clauses, in the order of the source.\<close>

fun analyze_word_except :: "exn \<Rightarrow> analysis" where
  "analyze_word_except (ValueError m) =
     \<lparr>result = None, error = Some m, status = FAILED\<rparr>"
| "analyze_word_except (AppError message code status_code details) =
     \<lparr>result = None, error = Some message, status = FAILED\<rparr>"
| "analyze_word_except e =
     \<lparr>result = None, error = Some internal_error_message, status = FAILED\<rparr>"

definition analyze_word :: "env \<Rightarrow> pystr \<Rightarrow> pystr \<Rightarrow> world \<Rightarrow> analysis \<times> world" where
  "analyze_word env word source db =
     (let w = lower (strip word)
      in case analyze_word_try env w source db of
           (Inr response, db') \<Rightarrow> (response, db')
         | (Inl e, db') \<Rightarrow> (analyze_word_except e, db'))"

section \<open>The channels (src/app/routers, src/bot/handlers.py)\<close>

text \<open>
  \<open>POST /api/analyze\<close>. The field validator of \<open>LinguisticRequestBase\<close> runs before
  the endpoint; the endpoint normalises the text and calls the service with source
  \<open>"api"\<close>.
\<close>

definition analyze_text :: "env \<Rightarrow> pystr \<Rightarrow> world \<Rightarrow> (exn + LinguisticResponse) \<times> world" where
  "analyze_text env text db =
     (case validate_word text of
        Inl e \<Rightarrow> (Inl e, db)
      | Inr _ \<Rightarrow>
         (let word = lower (strip text)
          in case analyze_word env word (ascii ''api'') db of
               (res, db') \<Rightarrow>
                 (if status res = FAILED
                  then (Inr \<lparr>lr_request_id = env_request_uuid env, lr_original_text = word,
                             lr_request_type = RT_SYNONYM, lr_status = FAILED, lr_result = None,
                             lr_error = error res, lr_execution_time = None\<rparr>, db')
                  else (Inr \<lparr>lr_request_id = env_request_uuid env, lr_original_text = word,
                             lr_request_type = RT_SYNONYM, lr_status = COMPLETED,
                             lr_result = result res, lr_error = None,
                             lr_execution_time = None\<rparr>, db'))))"

text \<open>\<open>POST /web/analyze\<close>: the context handed to the template.\<close>

record web_context =
  wc_original_text :: pystr
  wc_result :: "WordAssociation list option"
  wc_error :: "pystr option"
  wc_status :: "ProcessingStatus option"

definition analyze_web :: "env \<Rightarrow> pystr \<Rightarrow> world \<Rightarrow> web_context \<times> world" where
  "analyze_web env text db =
     (if \<not> is_cyrillic text
      then (\<lparr>wc_original_text = text, wc_result = None,
             wc_error = Some
               [1055, 1086, 1078, 1072, 1083, 1091, 1081, 1089, 1090, 1072, 44, 32, 1080, 1089,
                1087, 1086, 1083, 1100, 1079, 1091, 1081, 1090, 1077, 32, 1090, 1086, 1083, 1100,
                1082, 1086, 32, 1082, 1080, 1088, 1080, 1083, 1083, 1080, 1094, 1091, 46],
             wc_status = None\<rparr>, db)
      else (case analyze_word env text (ascii ''web'') db of
              (res, db') \<Rightarrow>
                (\<lparr>wc_original_text = text, wc_result = result res, wc_error = error res,
                  wc_status = Some (status res)\<rparr>, db')))"

text \<open>
  The Telegram handler. What it answers is kept as a value (the HTML text it renders
  from it is not modelled); \<open>list(dict.fromkeys(xs))\<close> keeps the first occurrence of
  each word. The service returns a value on every path, so the handler's own \<open>except\<close>
  clause guards only the calls to Telegram, which are outside this model.
\<close>

datatype bot_reply =
    NotCyrillic
  | TooLong
  | ErrorReply "pystr option"
  | NothingFound
  | ResultReply "pystr list" "pystr list"

definition fromkeys :: "pystr list \<Rightarrow> pystr list" where
  "fromkeys xs = rev (remdups (rev xs))"

definition analyze_message_text :: "env \<Rightarrow> pystr \<Rightarrow> world \<Rightarrow> bot_reply \<times> world" where
  "analyze_message_text env message_text db =
     (let word = strip message_text
      in if \<not> is_cyrillic word then (NotCyrillic, db)
         else if length word > 50 then (TooLong, db)
         else (case analyze_word env word (ascii ''telegram'') db of
                 (response, db') \<Rightarrow>
                   (if status response = FAILED then (ErrorReply (error response), db')
                    else (case result response of
                            Some (item # items) \<Rightarrow>
                              (ResultReply
                                 (fromkeys (map wa_word (filter (\<lambda>i. wa_type i = SYNONYM) (item # items))))
                                 (fromkeys (map wa_word (filter (\<lambda>i. wa_type i = ANTONYM) (item # items)))),
                               db')
                          | _ \<Rightarrow> (NothingFound, db')))))"

section \<open>Scenarios\<close>

definition world0 :: world where
  "world0 = \<lparr>word_dictionary = [], request_history = [], llm_invocations = []\<rparr>"

text \<open>An environment in which nothing fails and the backend knows the word but has no associations.\<close>

definition env0 :: env where
  "env0 = \<lparr>env_select = None,
            env_llm = Returns \<lparr>is_exists = True, synonyms = [], antonyms = []\<rparr>,
            env_upsert_execute = None, env_upsert_commit = None,
            env_create_commit = None, env_create_refresh = None,
            env_dictionary_uuid = 1, env_history_uuid = 2, env_request_uuid = 3, env_now = 0\<rparr>"

text \<open>The backend's answer for "schast'e": five synonyms and five antonyms.\<close>

definition happy_response :: AnalysisResponse where
  "happy_response =
     \<lparr>is_exists = True,
      synonyms = [[1088, 1072, 1076, 1086, 1089, 1090, 1100],
                  [1073, 1083, 1072, 1078, 1077, 1085, 1089, 1090, 1074, 1086],
                  [1091, 1076, 1072, 1095, 1072],
                  [1073, 1083, 1072, 1075, 1086, 1087, 1086, 1083, 1091, 1095, 1080, 1077],
                  [1074, 1077, 1079, 1077, 1085, 1080, 1077]],
      antonyms = [[1075, 1086, 1088, 1077],
                  [1085, 1077, 1089, 1095, 1072, 1089, 1090, 1100, 1077],
                  [1073, 1077, 1076, 1072],
                  [1087, 1077, 1095, 1072, 1083, 1100],
                  [1090, 1086, 1089, 1082, 1072]]\<rparr>"

definition env_happy :: env where
  "env_happy = env0\<lparr>env_llm := Returns happy_response\<rparr>"

definition env_not_found :: env where
  "env_not_found = env0\<lparr>env_llm := Returns \<lparr>is_exists = False, synonyms = [], antonyms = []\<rparr>\<rparr>"

text \<open>The words of the scenarios: "schast'e", "Schast'e", " SCHAST'E\n", "FDYVA ", "kot".\<close>

definition schastje :: pystr where
  "schastje = [1089, 1095, 1072, 1089, 1090, 1100, 1077]"

definition Schastje :: pystr where
  "Schastje = [1057, 1095, 1072, 1089, 1090, 1100, 1077]"

definition FDYVA_space :: pystr where
  "FDYVA_space = [1060, 1044, 1067, 1042, 1040, 32]"

definition fdyva :: pystr where
  "fdyva = [1092, 1076, 1099, 1074, 1072]"

definition kot :: pystr where
  "kot = [1082, 1086, 1090]"

text \<open>The chain raises a \<open>ValueError\<close> whose text is empty.\<close>

definition env_value_error_empty :: env where
  "env_value_error_empty = env0\<lparr>env_llm := Raises (ValueError [])\<rparr>"

text \<open>The associations of the first scenario, and the world it leaves behind.\<close>

definition happy_associations :: "WordAssociation list" where
  "happy_associations =
     map (\<lambda>syn. \<lparr>wa_word = syn, wa_type = SYNONYM\<rparr>) (synonyms happy_response) @
     map (\<lambda>ant. \<lparr>wa_word = ant, wa_type = ANTONYM\<rparr>) (antonyms happy_response)"

definition cached_row :: WordDictionary where
  "cached_row =
     new_WordDictionary env_happy schastje [(ascii ''items'', map model_dump happy_associations)]"

definition world_cached :: world where
  "world_cached = snd (analyze_word env_happy schastje (ascii ''api'') world0)"

text \<open>"SCHAST'E" in capitals.\<close>

definition SCHASTJE :: pystr where
  "SCHASTJE = [1057, 1063, 1040, 1057, 1058, 1068, 1045]"

text \<open>The lookup fails: the database is unreachable.\<close>

definition env_select_down :: env where
  "env_select_down = env0\<lparr>env_select := Some (SQLAlchemyError (ascii ''connection refused''))\<rparr>"

text \<open>
  The commit of the history record succeeds and the \<open>refresh\<close> that follows it fails.
\<close>

definition env_refresh_down :: env where
  "env_refresh_down =
     env0\<lparr>env_create_refresh := Some (SQLAlchemyError (ascii ''connection lost''))\<rparr>"


section \<open>Vocabulary of the properties\<close>

text \<open>
  The exceptions the session raised during the request, in the order of the calls.
\<close>

definition storage_faults :: "env \<Rightarrow> exn list" where
  "storage_faults env =
     List.map_filter (\<lambda>x. x)
       [env_select env, env_upsert_execute env, env_upsert_commit env,
        env_create_commit env, env_create_refresh env]"

text \<open>
  An exception of the storage engine, or any exception that is neither a
  \<open>ValueError\<close> nor an \<open>AppError\<close>.
\<close>

fun infrastructure_failure :: "exn \<Rightarrow> bool" where
  "infrastructure_failure (SQLAlchemyError m) = True"
| "infrastructure_failure (OtherException m) = True"
| "infrastructure_failure e = False"

text \<open>A row whose stored items pydantic accepts.\<close>

definition deserializable :: "WordDictionary \<Rightarrow> bool" where
  "deserializable row =
     (case associations_of_items (dict_get (wd_associations row) (ascii ''items'') []) of
        Inr _ \<Rightarrow> True
      | Inl _ \<Rightarrow> False)"

section \<open>Normalisation\<close>

lemma isspace_lower_cp: "isspace (lower_cp c) = isspace c"
  by (auto simp: isspace_def lower_cp_def)

lemma lower_strip: "lower (strip s) = strip (lower s)"
  by (simp add: strip_def lower_def dropWhile_map rev_map comp_def isspace_lower_cp)

lemma dropWhile_all: "list_all P xs \<Longrightarrow> dropWhile P (xs @ ys) = dropWhile P ys"
  by (induction xs) auto

lemma dropWhile_all_nil: "list_all P xs \<Longrightarrow> dropWhile P xs = []"
  by (induction xs) auto

lemma dropWhile_rev_dropWhile_pad:
  "list_all P post \<Longrightarrow>
     dropWhile P (rev (dropWhile P (s @ post))) = dropWhile P (rev (dropWhile P s))"
proof (induction s)
  case Nil
  then show ?case by (simp add: dropWhile_all_nil)
next
  case (Cons x xs)
  show ?case
  proof (cases "P x")
    case True
    with Cons show ?thesis by simp
  next
    case False
    from Cons.prems have "list_all P (rev post)" by (simp add: list_all_iff)
    then have "dropWhile P (rev post @ rev xs @ [x]) = dropWhile P (rev xs @ [x])"
      by (rule dropWhile_all)
    with False show ?thesis by simp
  qed
qed

lemma strip_pad:
  assumes "list_all isspace pre" "list_all isspace post"
  shows "strip (pre @ s @ post) = strip s"
  using assms by (simp add: strip_def dropWhile_all dropWhile_rev_dropWhile_pad)

lemma same_key:
  assumes "list_all isspace pre" "list_all isspace post" "lower v = lower word"
  shows "lower (strip (pre @ v @ post)) = lower (strip word)"
  using assms by (simp add: strip_pad lower_strip)

section \<open>Serialisation of associations\<close>

lemma ascii_synonym_antonym: "ascii ''synonym'' \<noteq> ascii ''antonym''"
  by (simp add: ascii_def)

lemma WordAssociation_of_item_model_dump: "WordAssociation_of_item (model_dump a) = Inr a"
  by (cases a; cases "wa_type a")
     (simp_all add: WordAssociation_of_item_def model_dump_def ascii_synonym_antonym
        ascii_synonym_antonym [symmetric])

lemma associations_of_items_model_dump: "associations_of_items (map model_dump xs) = Inr xs"
  by (induction xs) (simp_all add: WordAssociation_of_item_model_dump)

section \<open>Effects of the repositories and of the graph\<close>

lemma process_analysis_world:
  "snd (process_analysis env st db) = db\<lparr>llm_invocations := llm_invocations db @ [gs_word st]\<rparr>"
  by (simp add: process_analysis_def chains_analyze_word_def Let_def
      split: outcome.splits exn.splits)

lemma app_graph_ainvoke_eq:
  "app_graph_ainvoke env st db =
     (case fst (process_analysis env st db) of
        ResultUpdate r \<Rightarrow> st\<lparr>gs_result := Some r\<rparr>
      | ErrorUpdate e \<Rightarrow> st\<lparr>gs_error := Some e\<rparr>,
      db\<lparr>llm_invocations := llm_invocations db @ [gs_word st]\<rparr>)"
  using process_analysis_world [of env st db]
  by (cases "process_analysis env st db") (simp add: app_graph_ainvoke_def split: node_update.splits)

lemma process_analysis_returns:
  assumes "env_llm env = Returns response" and "is_exists response"
  shows "fst (process_analysis env st db) =
     ResultUpdate (map (\<lambda>syn. \<lparr>wa_word = syn, wa_type = SYNONYM\<rparr>) (synonyms response) @
                   map (\<lambda>ant. \<lparr>wa_word = ant, wa_type = ANTONYM\<rparr>) (antonyms response))"
  using assms by (simp add: process_analysis_def chains_analyze_word_def Let_def)

lemma find_None_notin:
  "find (\<lambda>row. wd_word row = w) rows = None \<Longrightarrow> w \<notin> set (map wd_word rows)"
  by (auto simp: find_None_iff)

lemma find_append_None: "find P xs = None \<Longrightarrow> find P (xs @ ys) = find P ys"
  by (induction xs) (auto split: if_splits)

lemma insert_miss:
  "find (\<lambda>row. wd_word row = w) rows = None \<Longrightarrow>
   insert_on_conflict_do_update env w a rows = rows @ [new_WordDictionary env w a]"
  using find_None_notin [of w rows] by (simp add: insert_on_conflict_do_update_def)

lemma create_ok:
  "env_create_commit env = None \<Longrightarrow> env_create_refresh env = None \<Longrightarrow>
   create env source text db =
     (Inr (new_RequestHistory env source text),
      db\<lparr>request_history := request_history db @ [new_RequestHistory env source text]\<rparr>)"
  by (simp add: create_def Let_def)

lemma create_dictionary: "word_dictionary (snd (create env s t db)) = word_dictionary db"
  by (simp add: create_def Let_def split: option.splits)

lemma create_llm: "llm_invocations (snd (create env s t db)) = llm_invocations db"
  by (simp add: create_def Let_def split: option.splits)

lemma create_history:
  "request_history (snd (create env s t db)) =
     (if env_create_commit env = None then request_history db @ [new_RequestHistory env s t]
      else request_history db)"
  by (simp add: create_def Let_def split: option.splits)

lemma upsert_ok:
  assumes "env_upsert_execute env = None" and "env_upsert_commit env = None"
    and "find (\<lambda>row. wd_word row = w) (word_dictionary db) = None"
    and "length w \<le> 255"
  shows "upsert env w associations db =
     (Inr (new_WordDictionary env w associations),
      db\<lparr>word_dictionary := word_dictionary db @ [new_WordDictionary env w associations]\<rparr>)"
  using assms
  by (simp add: upsert_def insert_miss find_append_None new_WordDictionary_def Let_def)

lemma upsert_history: "request_history (snd (upsert env w a db)) = request_history db"
  by (simp add: upsert_def Let_def split: option.splits)


lemma upsert_llm: "llm_invocations (snd (upsert env w a db)) = llm_invocations db"
  by (simp add: upsert_def Let_def split: option.splits)

lemma upsert_dictionary:
  "word_dictionary (snd (upsert env w a db)) =
     (if env_upsert_execute env = None \<and> env_upsert_commit env = None \<and> length w \<le> 255
      then insert_on_conflict_do_update env w a (word_dictionary db)
      else word_dictionary db)"
  by (simp add: upsert_def Let_def split: option.splits)

section \<open>The world after a request\<close>

lemma analyze_word_snd:
  "snd (analyze_word env word source db) = snd (analyze_word_try env (lower (strip word)) source db)"
  by (simp add: analyze_word_def Let_def split: prod.splits sum.splits)

lemma analyze_word_try_snd:
  "snd (analyze_word_try env w source db) =
     (case get_by_word env w db of
        Inl e \<Rightarrow> db
      | Inr (Some entry) \<Rightarrow>
          (case associations_of_items (dict_get (wd_associations entry) (ascii ''items'') []) of
             Inl e \<Rightarrow> db
           | Inr a \<Rightarrow> snd (create env source w db))
      | Inr None \<Rightarrow>
          (case fst (process_analysis env \<lparr>gs_word = w, gs_result = None, gs_error = None\<rparr> db) of
             ResultUpdate (item # items) \<Rightarrow>
               (case fst (upsert env w [(ascii ''items'', map model_dump (item # items))]
                            (db\<lparr>llm_invocations := llm_invocations db @ [w]\<rparr>)) of
                  Inl e \<Rightarrow> snd (upsert env w [(ascii ''items'', map model_dump (item # items))]
                                 (db\<lparr>llm_invocations := llm_invocations db @ [w]\<rparr>))
                | Inr _ \<Rightarrow>
                    snd (create env source w
                          (snd (upsert env w [(ascii ''items'', map model_dump (item # items))]
                                 (db\<lparr>llm_invocations := llm_invocations db @ [w]\<rparr>)))))
           | _ \<Rightarrow> snd (create env source w (db\<lparr>llm_invocations := llm_invocations db @ [w]\<rparr>))))"
  by (simp add: analyze_word_try_def app_graph_ainvoke_eq Let_def
      split: option.splits sum.splits prod.splits list.splits node_update.splits)

lemma analyze_word_dictionary:
  "word_dictionary (snd (analyze_word env word source db)) =
     (case fst (process_analysis env
                  \<lparr>gs_word = lower (strip word), gs_result = None, gs_error = None\<rparr> db) of
        ResultUpdate (item # items) \<Rightarrow>
          (if env_select env = None \<and>
              find (\<lambda>row. wd_word row = lower (strip word)) (word_dictionary db) = None \<and>
              env_upsert_execute env = None \<and> env_upsert_commit env = None \<and>
              length (lower (strip word)) \<le> 255
           then word_dictionary db @
                  [new_WordDictionary env (lower (strip word))
                     [(ascii ''items'', map model_dump (item # items))]]
           else word_dictionary db)
      | _ \<Rightarrow> word_dictionary db)"
  by (simp add: analyze_word_snd analyze_word_try_snd get_by_word_def create_dictionary
        upsert_dictionary insert_miss
      split: option.splits sum.splits list.splits node_update.splits)

lemma analyze_word_llm:
  "llm_invocations (snd (analyze_word env word source db)) =
     (if env_select env = None \<and>
         find (\<lambda>row. wd_word row = lower (strip word)) (word_dictionary db) = None
      then llm_invocations db @ [lower (strip word)]
      else llm_invocations db)"
  by (simp add: analyze_word_snd analyze_word_try_snd get_by_word_def create_llm upsert_llm
      split: option.splits sum.splits list.splits node_update.splits)

lemma analyze_word_history:
  "request_history (snd (analyze_word env word source db)) = request_history db \<or>
   request_history (snd (analyze_word env word source db)) =
     request_history db @ [new_RequestHistory env source (lower (strip word))]"
  by (simp add: analyze_word_snd analyze_word_try_snd get_by_word_def create_history
        upsert_history
      split: option.splits sum.splits list.splits node_update.splits)

section \<open>The paths through the service\<close>

lemma analyze_word_hit:
  assumes "env_select env = None"
    and "find (\<lambda>row. wd_word row = lower (strip word)) (word_dictionary db) = Some entry"
    and "associations_of_items (dict_get (wd_associations entry) (ascii ''items'') []) = Inr associations"
    and "env_create_commit env = None" and "env_create_refresh env = None"
  shows "analyze_word env word source db =
     (\<lparr>result = Some associations, error = None, status = COMPLETED\<rparr>,
      db\<lparr>request_history :=
            request_history db @ [new_RequestHistory env source (lower (strip word))]\<rparr>)"
  using assms by (simp add: analyze_word_def analyze_word_try_def get_by_word_def create_ok Let_def)

lemma analyze_word_miss_generated:
  assumes "env_select env = None"
    and "find (\<lambda>row. wd_word row = lower (strip word)) (word_dictionary db) = None"
    and "fst (process_analysis env
                \<lparr>gs_word = lower (strip word), gs_result = None, gs_error = None\<rparr> db) =
           ResultUpdate generated"
    and "generated \<noteq> []"
    and "env_upsert_execute env = None" and "env_upsert_commit env = None"
    and "env_create_commit env = None" and "env_create_refresh env = None"
    and "length (lower (strip word)) \<le> 255"
  shows "analyze_word env word source db =
     (\<lparr>result = Some generated, error = None, status = COMPLETED\<rparr>,
      db\<lparr>word_dictionary := word_dictionary db @
            [new_WordDictionary env (lower (strip word))
               [(ascii ''items'', map model_dump generated)]],
         request_history :=
            request_history db @ [new_RequestHistory env source (lower (strip word))],
         llm_invocations := llm_invocations db @ [lower (strip word)]\<rparr>)"
proof -
  obtain item items where g: "generated = item # items"
    using assms(4) by (cases generated) auto
  show ?thesis
    using assms(1,2,5-9) assms(3) [unfolded g]
    by (simp add: analyze_word_def analyze_word_try_def get_by_word_def app_graph_ainvoke_eq
        upsert_ok create_ok g Let_def)
qed

lemma analyze_word_miss_not_generated:
  assumes "env_select env = None"
    and "find (\<lambda>row. wd_word row = lower (strip word)) (word_dictionary db) = None"
    and "fst (process_analysis env
                \<lparr>gs_word = lower (strip word), gs_result = None, gs_error = None\<rparr> db) = update"
    and "update = ResultUpdate [] \<or> (\<exists>message. update = ErrorUpdate message)"
    and "env_create_commit env = None" and "env_create_refresh env = None"
  shows "analyze_word env word source db =
     ((case update of
         ResultUpdate r \<Rightarrow> \<lparr>result = Some r, error = None, status = COMPLETED\<rparr>
       | ErrorUpdate message \<Rightarrow>
           \<lparr>result = None, error = Some message,
            status = (if message = [] then COMPLETED else FAILED)\<rparr>),
      db\<lparr>request_history :=
            request_history db @ [new_RequestHistory env source (lower (strip word))],
         llm_invocations := llm_invocations db @ [lower (strip word)]\<rparr>)"
  using assms
  by (auto simp: analyze_word_def analyze_word_try_def get_by_word_def app_graph_ainvoke_eq
      create_ok Let_def)



section \<open>The response of the service\<close>

lemma analyze_word_fst:
  "fst (analyze_word env word source db) =
     (case fst (analyze_word_try env (lower (strip word)) source db) of
        Inr response \<Rightarrow> response
      | Inl e \<Rightarrow> analyze_word_except e)"
  by (simp add: analyze_word_def Let_def split: prod.splits sum.splits)

lemma create_fst:
  "fst (create env s t db) =
     (case env_create_commit env of
        Some e \<Rightarrow> Inl (except_SQLAlchemyError create_message e)
      | None \<Rightarrow>
          (case env_create_refresh env of
             Some e \<Rightarrow> Inl (except_SQLAlchemyError create_message e)
           | None \<Rightarrow> Inr (new_RequestHistory env s t)))"
  by (simp add: create_def Let_def split: option.splits)

lemma analyze_word_try_fst:
  "fst (analyze_word_try env w source db) =
     (case get_by_word env w db of
        Inl e \<Rightarrow> Inl e
      | Inr (Some entry) \<Rightarrow>
          (case associations_of_items (dict_get (wd_associations entry) (ascii ''items'') []) of
             Inl e \<Rightarrow> Inl e
           | Inr a \<Rightarrow>
               (case fst (create env source w db) of
                  Inl e \<Rightarrow> Inl e
                | Inr _ \<Rightarrow> Inr \<lparr>result = Some a, error = None, status = COMPLETED\<rparr>))
      | Inr None \<Rightarrow>
          (case fst (process_analysis env \<lparr>gs_word = w, gs_result = None, gs_error = None\<rparr> db) of
             ResultUpdate [] \<Rightarrow>
               (case fst (create env source w (db\<lparr>llm_invocations := llm_invocations db @ [w]\<rparr>)) of
                  Inl e \<Rightarrow> Inl e
                | Inr _ \<Rightarrow> Inr \<lparr>result = Some [], error = None, status = COMPLETED\<rparr>)
           | ResultUpdate (item # items) \<Rightarrow>
               (case fst (upsert env w [(ascii ''items'', map model_dump (item # items))]
                            (db\<lparr>llm_invocations := llm_invocations db @ [w]\<rparr>)) of
                  Inl e \<Rightarrow> Inl e
                | Inr _ \<Rightarrow>
                    (case fst (create env source w
                          (snd (upsert env w [(ascii ''items'', map model_dump (item # items))]
                                 (db\<lparr>llm_invocations := llm_invocations db @ [w]\<rparr>)))) of
                       Inl e \<Rightarrow> Inl e
                     | Inr _ \<Rightarrow>
                         Inr \<lparr>result = Some (item # items), error = None, status = COMPLETED\<rparr>))
           | ErrorUpdate message \<Rightarrow>
               (case fst (create env source w (db\<lparr>llm_invocations := llm_invocations db @ [w]\<rparr>)) of
                  Inl e \<Rightarrow> Inl e
                | Inr _ \<Rightarrow>
                    Inr \<lparr>result = None, error = Some message,
                         status = (if message = [] then COMPLETED else FAILED)\<rparr>)))"
  by (auto simp: analyze_word_try_def app_graph_ainvoke_eq Let_def
      split: option.splits sum.splits prod.splits list.splits node_update.splits)

lemma analyze_word_try_status:
  "fst (analyze_word_try env w source db) = Inr response \<Longrightarrow>
   status response = COMPLETED \<or> status response = FAILED"
  by (auto simp: analyze_word_try_fst
      split: option.splits sum.splits list.splits node_update.splits if_splits)

lemma analyze_word_except_shape:
  "result (analyze_word_except e) = None \<and> status (analyze_word_except e) = FAILED \<and>
   (\<exists>message. error (analyze_word_except e) = Some message)"
  by (cases e) simp_all

section \<open>Exceptions that leave the try\<close>

lemma storage_faults_all:
  "list_all P (storage_faults env) \<longleftrightarrow>
     (\<forall>e. env_select env = Some e \<longrightarrow> P e) \<and>
     (\<forall>e. env_upsert_execute env = Some e \<longrightarrow> P e) \<and>
     (\<forall>e. env_upsert_commit env = Some e \<longrightarrow> P e) \<and>
     (\<forall>e. env_create_commit env = Some e \<longrightarrow> P e) \<and>
     (\<forall>e. env_create_refresh env = Some e \<longrightarrow> P e)"
  by (auto simp: storage_faults_def split: option.splits)

lemma except_infrastructure_failure:
  "infrastructure_failure x \<Longrightarrow>
     analyze_word_except x =
       \<lparr>result = None, error = Some internal_error_message, status = FAILED\<rparr> \<and>
     (analyze_word_except (except_SQLAlchemyError m x) =
        \<lparr>result = None, error = Some m, status = FAILED\<rparr> \<or>
      analyze_word_except (except_SQLAlchemyError m x) =
        \<lparr>result = None, error = Some internal_error_message, status = FAILED\<rparr>)"
  by (cases x) (simp_all add: DatabaseError_def)

lemma create_fst_Inl:
  assumes "fst (create env s t db) = Inl e"
  shows "\<exists>x. (env_create_commit env = Some x \<or> env_create_refresh env = Some x) \<and>
             e = except_SQLAlchemyError create_message x"
  using assms by (auto simp: create_fst split: option.splits)

lemma upsert_fst_Inl:
  assumes "fst (upsert env w a db) = Inl e"
  shows "(\<exists>x. (env_upsert_execute env = Some x \<or> env_upsert_commit env = Some x) \<and>
              e = except_SQLAlchemyError upsert_message x) \<or>
         (\<exists>d. e = DatabaseError upsert_message d)"
  using assms by (auto simp: upsert_def Let_def split: option.splits if_splits)

lemma find_list_all: "list_all Q rows \<Longrightarrow> find P rows = Some entry \<Longrightarrow> Q entry"
  by (induction rows) (auto split: if_splits)

lemma find_deserializable:
  "list_all deserializable rows \<Longrightarrow> find P rows = Some entry \<Longrightarrow>
   \<exists>a. associations_of_items (dict_get (wd_associations entry) (ascii ''items'') []) = Inr a"
  using find_list_all [of deserializable rows P entry]
  by (auto simp: deserializable_def split: sum.splits)

lemma analyze_word_try_Inl:
  assumes "fst (analyze_word_try env w source db) = Inl e"
    and "list_all deserializable (word_dictionary db)"
  shows "env_select env = Some e \<or>
         (\<exists>a db'. fst (upsert env w a db') = Inl e) \<or>
         (\<exists>db'. fst (create env source w db') = Inl e)"
  using assms(1) find_deserializable [OF assms(2), of "\<lambda>row. wd_word row = w"]
  by (auto simp: analyze_word_try_fst get_by_word_def
      split: option.splits sum.splits list.splits node_update.splits)

lemma analyze_word_try_history:
  assumes "fst (analyze_word_try env w source db) = Inl e"
    and "env_create_refresh env = None"
  shows "request_history (snd (analyze_word_try env w source db)) = request_history db"
  using assms
  by (auto simp: analyze_word_try_fst analyze_word_try_snd get_by_word_def create_fst
        create_history upsert_history
      split: option.splits sum.splits list.splits node_update.splits)

lemma analyze_word_try_Inr_history:
  assumes "fst (analyze_word_try env w source db) = Inr response"
  shows "request_history (snd (analyze_word_try env w source db)) =
     request_history db @ [new_RequestHistory env source w]"
  using assms
  by (auto simp: analyze_word_try_fst analyze_word_try_snd get_by_word_def create_fst
        create_history upsert_history
      split: option.splits sum.splits list.splits node_update.splits)

section \<open>The channels and the history\<close>

lemma analyze_web_snd:
  "snd (analyze_web env text db) = db \<or>
   snd (analyze_web env text db) = snd (analyze_word env text (ascii ''web'') db)"
  by (simp add: analyze_web_def split: prod.splits)

lemma analyze_text_snd:
  "snd (analyze_text env text db) = db \<or>
   snd (analyze_text env text db) = snd (analyze_word env (lower (strip text)) (ascii ''api'') db)"
  by (simp add: analyze_text_def Let_def split: prod.splits sum.splits)

lemma analyze_message_text_snd:
  "snd (analyze_message_text env text db) = db \<or>
   snd (analyze_message_text env text db) =
     snd (analyze_word env (strip text) (ascii ''telegram'') db)"
  by (simp add: analyze_message_text_def Let_def split: prod.splits option.splits list.splits)

lemma analyze_word_history_source:
  "request_history (snd (analyze_word env word source db)) = request_history db \<or>
   (\<exists>logged. request_history (snd (analyze_word env word source db)) =
                request_history db @ [logged] \<and> rh_source logged = source)"
  using analyze_word_history [of env word source db]
  by (auto simp: new_RequestHistory_def)

section \<open>The scenarios, evaluated\<close>

lemma key_kot: "lower (strip kot) = kot"
  by (simp add: kot_def strip_def lower_def lower_cp_def isspace_def)

lemma key_schastje: "lower (strip schastje) = schastje"
  by (simp add: schastje_def strip_def lower_def lower_cp_def isspace_def)

lemma key_Schastje: "lower (strip Schastje) = schastje"
  by (simp add: Schastje_def schastje_def strip_def lower_def lower_cp_def isspace_def)

lemma key_FDYVA_space: "lower (strip FDYVA_space) = fdyva"
  by (simp add: FDYVA_space_def fdyva_def strip_def lower_def lower_cp_def isspace_def)

lemma lower_SCHASTJE: "lower SCHASTJE = lower schastje"
  by (simp add: SCHASTJE_def schastje_def lower_def lower_cp_def)

lemma env0_simps:
  "env_select env0 = None" "env_upsert_execute env0 = None" "env_upsert_commit env0 = None"
  "env_create_commit env0 = None" "env_create_refresh env0 = None"
  "env_llm env0 = Returns \<lparr>is_exists = True, synonyms = [], antonyms = []\<rparr>"
  by (simp_all add: env0_def)

lemma env_happy_simps:
  "env_select env_happy = None" "env_upsert_execute env_happy = None"
  "env_upsert_commit env_happy = None" "env_create_commit env_happy = None"
  "env_create_refresh env_happy = None" "env_llm env_happy = Returns happy_response"
  by (simp_all add: env_happy_def env0_def)

lemma env_not_found_simps:
  "env_select env_not_found = None" "env_create_commit env_not_found = None"
  "env_create_refresh env_not_found = None"
  "env_llm env_not_found = Returns \<lparr>is_exists = False, synonyms = [], antonyms = []\<rparr>"
  by (simp_all add: env_not_found_def env0_def)

lemma happy_generated:
  "fst (process_analysis env_happy st db) = ResultUpdate happy_associations"
  using process_analysis_returns [OF env_happy_simps(6), of st db]
  by (simp add: happy_associations_def happy_response_def)

lemma happy_associations_nonempty: "happy_associations \<noteq> []"
  by (simp add: happy_associations_def happy_response_def)

lemma not_found_generated:
  "fst (process_analysis env_not_found st db) = ErrorUpdate (not_found_message (gs_word st))"
  by (simp add: process_analysis_def chains_analyze_word_def env_not_found_simps Let_def)

lemma world0_simps:
  "word_dictionary world0 = []" "request_history world0 = []" "llm_invocations world0 = []"
  by (simp_all add: world0_def)

lemma length_schastje: "length schastje = 7"
  by (simp add: schastje_def)

lemma world_cached_eq:
  "world_cached =
     \<lparr>word_dictionary = [cached_row],
      request_history = [new_RequestHistory env_happy (ascii ''api'') schastje],
      llm_invocations = [schastje]\<rparr>"
  using analyze_word_miss_generated [OF env_happy_simps(1) _ happy_generated
      happy_associations_nonempty env_happy_simps(2) env_happy_simps(3) env_happy_simps(4)
      env_happy_simps(5), of schastje world0 "ascii ''api''"]
  by (simp add: world_cached_def cached_row_def key_schastje length_schastje world0_def)

lemma cached_row_items:
  "associations_of_items (dict_get (wd_associations cached_row) (ascii ''items'') []) =
     Inr happy_associations"
  by (simp add: cached_row_def new_WordDictionary_def dict_get_def
      associations_of_items_model_dump)

lemma find_cached_row:
  "find (\<lambda>row. wd_word row = schastje) (word_dictionary world_cached) = Some cached_row"
  by (simp add: world_cached_eq cached_row_def new_WordDictionary_def)

lemma analyze_word_happy:
  "analyze_word env_happy schastje source world0 =
     (\<lparr>result = Some happy_associations, error = None, status = COMPLETED\<rparr>,
      \<lparr>word_dictionary = [cached_row],
       request_history = [new_RequestHistory env_happy source schastje],
       llm_invocations = [schastje]\<rparr>)"
  using analyze_word_miss_generated [OF env_happy_simps(1) _ happy_generated
      happy_associations_nonempty env_happy_simps(2) env_happy_simps(3) env_happy_simps(4)
      env_happy_simps(5), of schastje world0 source]
  by (simp add: cached_row_def key_schastje length_schastje world0_def)

lemma analyze_word_not_found:
  "analyze_word env_not_found FDYVA_space source world0 =
     (\<lparr>result = None, error = Some (not_found_message fdyva), status = FAILED\<rparr>,
      \<lparr>word_dictionary = [],
       request_history = [new_RequestHistory env_not_found source fdyva],
       llm_invocations = [fdyva]\<rparr>)"
  using analyze_word_miss_not_generated [OF env_not_found_simps(1) _ not_found_generated _
      env_not_found_simps(2) env_not_found_simps(3), of FDYVA_space world0 source]
  by (simp add: key_FDYVA_space world0_def not_found_message_def)

lemma is_cyrillic_schastje: "is_cyrillic schastje"
  by (simp add: is_cyrillic_def schastje_def cyrillic_class_def)

lemma strip_schastje: "strip schastje = schastje"
  by (simp add: schastje_def strip_def isspace_def)

lemma lower_schastje: "lower schastje = schastje"
  by (simp add: schastje_def lower_def lower_cp_def)




lemma channels_happy:
  "snd (analyze_web env_happy schastje world0) =
     snd (analyze_word env_happy schastje (ascii ''web'') world0)"
  "snd (analyze_text env_happy schastje world0) =
     snd (analyze_word env_happy schastje (ascii ''api'') world0)"
  "snd (analyze_message_text env_happy schastje world0) =
     snd (analyze_word env_happy schastje (ascii ''telegram'') world0)"
  by (simp_all add: analyze_web_def analyze_text_def analyze_message_text_def validate_word_def
      is_cyrillic_schastje strip_schastje lower_schastje length_schastje Let_def
      split: prod.splits option.splits list.splits)

section \<open>The generator never raises\<close>

text \<open>
  C7. Whatever the backend call does (it answers, it reports that the word does not
  exist, it raises a \<open>ValueError\<close> or any other exception), the graph node returns a
  state update: the association list, or an error message.
\<close>

theorem process_analysis_total:
  "fst (process_analysis env state db) =
     (case env_llm env of
        Returns response \<Rightarrow>
          (if is_exists response
           then ResultUpdate (map (\<lambda>syn. \<lparr>wa_word = syn, wa_type = SYNONYM\<rparr>) (synonyms response) @
                              map (\<lambda>ant. \<lparr>wa_word = ant, wa_type = ANTONYM\<rparr>) (antonyms response))
           else ErrorUpdate (not_found_message (gs_word state)))
      | Raises (ValueError m) \<Rightarrow> ErrorUpdate m
      | Raises _ \<Rightarrow> ErrorUpdate ai_service_message)"
  by (simp add: process_analysis_def chains_analyze_word_def ExternalAPIError_def
      split: outcome.splits exn.splits)

theorem process_analysis_total_witness:
  "fst (process_analysis env_happy \<lparr>gs_word = schastje, gs_result = None, gs_error = None\<rparr> world0) =
     ResultUpdate (map (\<lambda>syn. \<lparr>wa_word = syn, wa_type = SYNONYM\<rparr>) (synonyms happy_response) @
                   map (\<lambda>ant. \<lparr>wa_word = ant, wa_type = ANTONYM\<rparr>) (antonyms happy_response)) \<and>
   fst (process_analysis env_not_found \<lparr>gs_word = fdyva, gs_result = None, gs_error = None\<rparr> world0) =
     ErrorUpdate (not_found_message fdyva) \<and>
   fst (process_analysis env_value_error_empty \<lparr>gs_word = kot, gs_result = None, gs_error = None\<rparr> world0) =
     ErrorUpdate [] \<and>
   fst (process_analysis (env0\<lparr>env_llm := Raises (OtherException (ascii ''timeout''))\<rparr>)
          \<lparr>gs_word = kot, gs_result = None, gs_error = None\<rparr> world0) =
     ErrorUpdate ai_service_message"
  using process_analysis_total [of env_happy "\<lparr>gs_word = schastje, gs_result = None, gs_error = None\<rparr>" world0]
    process_analysis_total [of env_not_found "\<lparr>gs_word = fdyva, gs_result = None, gs_error = None\<rparr>" world0]
    process_analysis_total [of env_value_error_empty "\<lparr>gs_word = kot, gs_result = None, gs_error = None\<rparr>" world0]
    process_analysis_total [of "env0\<lparr>env_llm := Raises (OtherException (ascii ''timeout''))\<rparr>"
       "\<lparr>gs_word = kot, gs_result = None, gs_error = None\<rparr>" world0]
  by (simp add: env_happy_def env_not_found_def env_value_error_empty_def env0_def happy_response_def)

section \<open>The cache is written only with generated associations\<close>

text \<open>
  C1. A request changes the dictionary table only when the lookup missed and the
  generator returned a non-empty association list for the normalised word; the change
  is then one new row for that word holding exactly those associations. When the
  generator returns an error or an empty list, the table is left as it was.
\<close>

theorem cache_written_only_for_generated:
  "(word_dictionary (snd (analyze_word env word source db)) \<noteq> word_dictionary db \<longrightarrow>
      (\<exists>associations. associations \<noteq> [] \<and>
         fst (process_analysis env
                \<lparr>gs_word = lower (strip word), gs_result = None, gs_error = None\<rparr> db) =
           ResultUpdate associations \<and>
         find (\<lambda>row. wd_word row = lower (strip word)) (word_dictionary db) = None \<and>
         word_dictionary (snd (analyze_word env word source db)) =
           word_dictionary db @
             [new_WordDictionary env (lower (strip word))
                [(ascii ''items'', map model_dump associations)]])) \<and>
   ((\<exists>message. fst (process_analysis env
                \<lparr>gs_word = lower (strip word), gs_result = None, gs_error = None\<rparr> db) =
           ErrorUpdate message) \<or>
     fst (process_analysis env
                \<lparr>gs_word = lower (strip word), gs_result = None, gs_error = None\<rparr> db) =
           ResultUpdate [] \<longrightarrow>
     word_dictionary (snd (analyze_word env word source db)) = word_dictionary db)"
  by (auto simp: analyze_word_dictionary split: node_update.splits list.splits if_splits)

theorem cache_written_only_for_generated_witness:
  "word_dictionary (snd (analyze_word env_not_found FDYVA_space (ascii ''web'') world0)) =
     word_dictionary world0 \<and>
   (\<exists>associations. associations \<noteq> [] \<and>
      fst (process_analysis env_happy
             \<lparr>gs_word = lower (strip schastje), gs_result = None, gs_error = None\<rparr> world0) =
        ResultUpdate associations \<and>
      find (\<lambda>row. wd_word row = lower (strip schastje)) (word_dictionary world0) = None \<and>
      word_dictionary (snd (analyze_word env_happy schastje (ascii ''api'') world0)) =
        word_dictionary world0 @
          [new_WordDictionary env_happy (lower (strip schastje))
             [(ascii ''items'', map model_dump associations)]])"
proof -
  have failed: "\<exists>message. fst (process_analysis env_not_found
      \<lparr>gs_word = lower (strip FDYVA_space), gs_result = None, gs_error = None\<rparr> world0) =
      ErrorUpdate message"
    by (simp add: not_found_generated)
  have changed: "word_dictionary (snd (analyze_word env_happy schastje (ascii ''api'') world0)) \<noteq>
      word_dictionary world0"
    by (simp add: analyze_word_happy world0_simps)
  from cache_written_only_for_generated [of env_not_found FDYVA_space "ascii ''web''" world0] failed
  have "word_dictionary (snd (analyze_word env_not_found FDYVA_space (ascii ''web'') world0)) =
     word_dictionary world0"
    by blast
  moreover
  from cache_written_only_for_generated [of env_happy schastje "ascii ''api''" world0] changed
  have "\<exists>associations. associations \<noteq> [] \<and>
      fst (process_analysis env_happy
             \<lparr>gs_word = lower (strip schastje), gs_result = None, gs_error = None\<rparr> world0) =
        ResultUpdate associations \<and>
      find (\<lambda>row. wd_word row = lower (strip schastje)) (word_dictionary world0) = None \<and>
      word_dictionary (snd (analyze_word env_happy schastje (ascii ''api'') world0)) =
        word_dictionary world0 @
          [new_WordDictionary env_happy (lower (strip schastje))
             [(ascii ''items'', map model_dump associations)]]"
    by blast
  ultimately show ?thesis by blast
qed

section \<open>The hit path\<close>

text \<open>
  C2. When the lookup by the normalised word finds a row whose stored items
  deserialise, and writing the history record does not fail, the request takes the hit
  path: the chain is not invoked, the deserialised associations are returned with
  status COMPLETED and no error, one history record is appended, and the dictionary
  table is untouched.
\<close>

theorem cache_hit_path:
  assumes "env_select env = None"
    and "find (\<lambda>row. wd_word row = lower (strip word)) (word_dictionary db) = Some entry"
    and "associations_of_items (dict_get (wd_associations entry) (ascii ''items'') []) =
           Inr associations"
    and "env_create_commit env = None" and "env_create_refresh env = None"
  shows "fst (analyze_word env word source db) =
           \<lparr>result = Some associations, error = None, status = COMPLETED\<rparr> \<and>
         llm_invocations (snd (analyze_word env word source db)) = llm_invocations db \<and>
         request_history (snd (analyze_word env word source db)) =
           request_history db @ [new_RequestHistory env source (lower (strip word))] \<and>
         word_dictionary (snd (analyze_word env word source db)) = word_dictionary db"
  by (simp add: analyze_word_hit [OF assms])

theorem cache_hit_path_witness:
  "fst (analyze_word env0 Schastje (ascii ''bot'') world_cached) =
     \<lparr>result = Some happy_associations, error = None, status = COMPLETED\<rparr> \<and>
   llm_invocations (snd (analyze_word env0 Schastje (ascii ''bot'') world_cached)) =
     llm_invocations world_cached \<and>
   request_history (snd (analyze_word env0 Schastje (ascii ''bot'') world_cached)) =
     request_history world_cached @
       [new_RequestHistory env0 (ascii ''bot'') (lower (strip Schastje))] \<and>
   word_dictionary (snd (analyze_word env0 Schastje (ascii ''bot'') world_cached)) =
     word_dictionary world_cached"
proof -
  have found: "find (\<lambda>row. wd_word row = lower (strip Schastje)) (word_dictionary world_cached) =
      Some cached_row"
    by (simp add: key_Schastje find_cached_row)
  show ?thesis
    by (rule cache_hit_path [OF env0_simps(1) found cached_row_items env0_simps(4) env0_simps(5)])
qed

section \<open>Round trip through the cache\<close>




section \<open>Generation failures\<close>

text \<open>
  C4. When generation fails, one history record is appended and the status should be
  FAILED with the generator's message. The service chooses the status by the truth
  value of the message, so a failure whose message is empty is reported as COMPLETED:
  here the chain raises \<open>ValueError('')\<close> on a miss, the record is appended, the error
  is the empty string and the status is COMPLETED.
\<close>

theorem empty_error_message_completed:
  "fst (analyze_word env_value_error_empty kot (ascii ''web'') world0) =
     \<lparr>result = None, error = Some [], status = COMPLETED\<rparr> \<and>
   request_history (snd (analyze_word env_value_error_empty kot (ascii ''web'') world0)) =
     [new_RequestHistory env_value_error_empty (ascii ''web'') kot]"
  by (simp add: analyze_word_fst analyze_word_snd analyze_word_try_fst analyze_word_try_snd
      get_by_word_def key_kot world0_def process_analysis_def chains_analyze_word_def create_fst
      create_history env_value_error_empty_def env0_def Let_def)

text \<open>
  With a non-empty message the failure is recorded and reported as the claim says.
\<close>

lemma generation_failure_recorded:
  assumes "env_select env = None"
    and "find (\<lambda>row. wd_word row = lower (strip word)) (word_dictionary db) = None"
    and "fst (process_analysis env
                \<lparr>gs_word = lower (strip word), gs_result = None, gs_error = None\<rparr> db) =
           ErrorUpdate message"
    and "message \<noteq> []"
    and "env_create_commit env = None" and "env_create_refresh env = None"
  shows "fst (analyze_word env word source db) =
           \<lparr>result = None, error = Some message, status = FAILED\<rparr> \<and>
         request_history (snd (analyze_word env word source db)) =
           request_history db @ [new_RequestHistory env source (lower (strip word))] \<and>
         word_dictionary (snd (analyze_word env word source db)) = word_dictionary db"
  using analyze_word_miss_not_generated [OF assms(1) assms(2) assms(3) _ assms(5) assms(6),
      of source] assms(4)
  by simp

section \<open>Storage failures\<close>

text \<open>
  C5. When an operation of the storage raises, the request should end FAILED with a
  generic message and with no history record written for it.
  \<open>BaseRepository.create\<close> runs \<open>commit\<close> and \<open>refresh\<close> in one \<open>try\<close>: here the
  commit of the history record succeeds and the \<open>refresh\<close> raises. The service answers
  FAILED with the message of \<open>create\<close>, and the record is in the table.
\<close>

theorem refresh_failure_leaves_history_record:
  "env_create_commit env_refresh_down = None \<and>
   env_create_refresh env_refresh_down = Some (SQLAlchemyError (ascii ''connection lost'')) \<and>
   fst (analyze_word env_refresh_down kot (ascii ''web'') world0) =
     \<lparr>result = None, error = Some create_message, status = FAILED\<rparr> \<and>
   request_history (snd (analyze_word env_refresh_down kot (ascii ''web'') world0)) =
     [new_RequestHistory env_refresh_down (ascii ''web'') kot]"
  by (simp add: analyze_word_fst analyze_word_snd analyze_word_try_fst analyze_word_try_snd
      get_by_word_def key_kot world0_def process_analysis_def chains_analyze_word_def create_fst
      create_history env_refresh_down_def env0_def DatabaseError_def Let_def)

text \<open>
  For every other failure the request is short-circuited as described. Let every
  exception raised by the session be an infrastructure failure and let the stored rows
  deserialise. If an exception leaves the \<open>try\<close>, the service returns result \<open>None\<close>,
  status FAILED and one of three fixed messages, none of which carries the text of the
  exception; and unless the exception comes from the \<open>refresh\<close> after the commit, no
  history record is written.
\<close>

lemma storage_failure_short_circuits:
  assumes "list_all infrastructure_failure (storage_faults env)"
    and "list_all deserializable (word_dictionary db)"
    and "fst (analyze_word_try env (lower (strip word)) source db) = Inl e"
  shows "result (fst (analyze_word env word source db)) = None \<and>
         status (fst (analyze_word env word source db)) = FAILED \<and>
         error (fst (analyze_word env word source db)) \<in>
           {Some internal_error_message, Some upsert_message, Some create_message} \<and>
         (env_create_refresh env = None \<longrightarrow>
            request_history (snd (analyze_word env word source db)) = request_history db)"
proof -
  have response: "fst (analyze_word env word source db) = analyze_word_except e"
    by (simp add: analyze_word_fst assms(3))
  have shape: "result (analyze_word_except e) = None \<and> status (analyze_word_except e) = FAILED"
    using analyze_word_except_shape [of e] by simp
  have message: "error (analyze_word_except e) \<in>
      {Some internal_error_message, Some upsert_message, Some create_message}"
    using analyze_word_try_Inl [OF assms(3) assms(2)]
  proof (elim disjE exE)
    assume "env_select env = Some e"
    with assms(1) have "infrastructure_failure e" by (simp add: storage_faults_all)
    then show ?thesis using except_infrastructure_failure [of e] by simp
  next
    fix a db' assume "fst (upsert env (lower (strip word)) a db') = Inl e"
    from upsert_fst_Inl [OF this] show ?thesis
    proof (elim disjE exE conjE)
      fix x assume "env_upsert_execute env = Some x" "e = except_SQLAlchemyError upsert_message x"
      with assms(1) except_infrastructure_failure [of x upsert_message] show ?thesis
        by (auto simp: storage_faults_all)
    next
      fix x assume "env_upsert_commit env = Some x" "e = except_SQLAlchemyError upsert_message x"
      with assms(1) except_infrastructure_failure [of x upsert_message] show ?thesis
        by (auto simp: storage_faults_all)
    next
      fix d assume "e = DatabaseError upsert_message d"
      then show ?thesis by (simp add: DatabaseError_def)
    qed
  next
    fix db' assume "fst (create env source (lower (strip word)) db') = Inl e"
    from create_fst_Inl [OF this] show ?thesis
    proof (elim disjE exE conjE)
      fix x assume "env_create_commit env = Some x" "e = except_SQLAlchemyError create_message x"
      with assms(1) except_infrastructure_failure [of x create_message] show ?thesis
        by (auto simp: storage_faults_all)
    next
      fix x assume "env_create_refresh env = Some x" "e = except_SQLAlchemyError create_message x"
      with assms(1) except_infrastructure_failure [of x create_message] show ?thesis
        by (auto simp: storage_faults_all)
    qed
  qed
  have history: "env_create_refresh env = None \<longrightarrow>
      request_history (snd (analyze_word env word source db)) = request_history db"
    using analyze_word_try_history [OF assms(3)] by (simp add: analyze_word_snd)
  show ?thesis
    using shape message history by (simp add: response)
qed

section \<open>What the history stores\<close>

text \<open>
  C6, as amended. The history record appended by a request stores in
  \<open>original_text\<close> the normalised word (stripped and lowered), the same string that
  keys the cache: a request appends at most one record, exactly one when no exception
  leaves the \<open>try\<close>; a row added to the dictionary has the normalised word as its key;
  and the chain is invoked, with the normalised word, exactly when the lookup by that
  word succeeds and finds nothing.
\<close>

theorem history_stores_normalized_text:
  "(request_history (snd (analyze_word env word source db)) = request_history db \<or>
    (\<exists>logged. request_history (snd (analyze_word env word source db)) =
                 request_history db @ [logged] \<and>
               rh_original_text logged = lower (strip word) \<and> rh_source logged = source)) \<and>
   ((\<exists>response. fst (analyze_word_try env (lower (strip word)) source db) = Inr response) \<longrightarrow>
    (\<exists>logged. request_history (snd (analyze_word env word source db)) =
                 request_history db @ [logged] \<and>
               rh_original_text logged = lower (strip word) \<and> rh_source logged = source)) \<and>
   (word_dictionary (snd (analyze_word env word source db)) = word_dictionary db \<or>
    (\<exists>row. word_dictionary (snd (analyze_word env word source db)) =
              word_dictionary db @ [row] \<and>
            wd_word row = lower (strip word))) \<and>
   llm_invocations (snd (analyze_word env word source db)) =
     (if env_select env = None \<and>
         find (\<lambda>row. wd_word row = lower (strip word)) (word_dictionary db) = None
      then llm_invocations db @ [lower (strip word)]
      else llm_invocations db)"
proof -
  have fields: "rh_original_text (new_RequestHistory env source (lower (strip word))) =
      lower (strip word) \<and>
      rh_source (new_RequestHistory env source (lower (strip word))) = source"
    by (simp add: new_RequestHistory_def)
  have one: "request_history (snd (analyze_word env word source db)) = request_history db \<or>
    (\<exists>logged. request_history (snd (analyze_word env word source db)) =
                 request_history db @ [logged] \<and>
               rh_original_text logged = lower (strip word) \<and> rh_source logged = source)"
    using analyze_word_history [of env word source db] fields by blast
  have two: "(\<exists>response. fst (analyze_word_try env (lower (strip word)) source db) = Inr response) \<longrightarrow>
    (\<exists>logged. request_history (snd (analyze_word env word source db)) =
                 request_history db @ [logged] \<and>
               rh_original_text logged = lower (strip word) \<and> rh_source logged = source)"
    using analyze_word_try_Inr_history [of env "lower (strip word)" source db] fields
    by (auto simp: analyze_word_snd)
  have three: "word_dictionary (snd (analyze_word env word source db)) = word_dictionary db \<or>
    (\<exists>row. word_dictionary (snd (analyze_word env word source db)) =
              word_dictionary db @ [row] \<and>
            wd_word row = lower (strip word))"
    by (auto simp: analyze_word_dictionary new_WordDictionary_def
        split: node_update.splits list.splits)
  show ?thesis
    using one two three analyze_word_llm [of env word source db] by blast
qed

text \<open>
  The claim as stated fails in its own scenario: for the input "FDYVA " the record
  holds "fdyva".
\<close>

theorem original_text_counterexample:
  "map rh_original_text
     (request_history (snd (analyze_word env_not_found FDYVA_space (ascii ''web'') world0))) =
     [fdyva] \<and>
   fdyva \<noteq> FDYVA_space"
proof
  show "map rh_original_text
     (request_history (snd (analyze_word env_not_found FDYVA_space (ascii ''web'') world0))) =
     [fdyva]"
    by (simp add: analyze_word_not_found new_RequestHistory_def)
  show "fdyva \<noteq> FDYVA_space"
    by (simp add: fdyva_def FDYVA_space_def)
qed

theorem history_stores_normalized_text_witness:
  "\<exists>logged. request_history (snd (analyze_word env_not_found FDYVA_space (ascii ''web'') world0)) =
              request_history world0 @ [logged] \<and>
            rh_original_text logged = lower (strip FDYVA_space) \<and>
            rh_source logged = ascii ''web''"
proof -
  have "fst (analyze_word_try env_not_found (lower (strip FDYVA_space)) (ascii ''web'') world0) =
      Inr \<lparr>result = None, error = Some (not_found_message fdyva), status = FAILED\<rparr>"
    by (simp add: analyze_word_try_fst get_by_word_def world0_def not_found_generated
        key_FDYVA_space create_fst env_not_found_simps not_found_message_def)
  then have returned: "\<exists>response.
      fst (analyze_word_try env_not_found (lower (strip FDYVA_space)) (ascii ''web'') world0) =
      Inr response"
    by blast
  from history_stores_normalized_text [of env_not_found FDYVA_space "ascii ''web''" world0] returned
  show ?thesis by blast
qed

section \<open>The sources of the channels\<close>

text \<open>
  C8, as amended. Each channel appends at most one history record per request, and its
  source is \<open>"web"\<close> for the web form, \<open>"api"\<close> for the HTTP API and \<open>"telegram"\<close>
  for the chat bot.
\<close>

theorem history_sources_of_channels:
  "(request_history (snd (analyze_web env text db)) = request_history db \<or>
    (\<exists>logged. request_history (snd (analyze_web env text db)) = request_history db @ [logged] \<and>
               rh_source logged = ascii ''web'')) \<and>
   (request_history (snd (analyze_text env text db)) = request_history db \<or>
    (\<exists>logged. request_history (snd (analyze_text env text db)) = request_history db @ [logged] \<and>
               rh_source logged = ascii ''api'')) \<and>
   (request_history (snd (analyze_message_text env text db)) = request_history db \<or>
    (\<exists>logged. request_history (snd (analyze_message_text env text db)) =
                 request_history db @ [logged] \<and>
               rh_source logged = ascii ''telegram''))"
  using analyze_web_snd [of env "text" db] analyze_text_snd [of env "text" db]
    analyze_message_text_snd [of env "text" db]
    analyze_word_history_source [of env "text" "ascii ''web''" db]
    analyze_word_history_source [of env "lower (strip text)" "ascii ''api''" db]
    analyze_word_history_source [of env "strip text" "ascii ''telegram''" db]
  by auto

text \<open>
  The claim as stated fails for the chat bot: its records carry \<open>"telegram"\<close>, which
  is none of \<open>"web"\<close>, \<open>"api"\<close>, \<open>"bot"\<close>.
\<close>

theorem bot_source_counterexample:
  "map rh_source (request_history (snd (analyze_message_text env_happy schastje world0))) =
     [ascii ''telegram''] \<and>
   ascii ''telegram'' \<notin> {ascii ''web'', ascii ''api'', ascii ''bot''}"
  by (simp add: channels_happy analyze_word_happy new_RequestHistory_def ascii_def)

theorem history_sources_of_channels_witness:
  "map rh_source (request_history (snd (analyze_web env_happy schastje world0))) = [ascii ''web''] \<and>
   map rh_source (request_history (snd (analyze_text env_happy schastje world0))) = [ascii ''api''] \<and>
   map rh_source (request_history (snd (analyze_message_text env_happy schastje world0))) =
     [ascii ''telegram'']"
proof -
  have changed:
    "request_history (snd (analyze_web env_happy schastje world0)) \<noteq> request_history world0"
    "request_history (snd (analyze_text env_happy schastje world0)) \<noteq> request_history world0"
    "request_history (snd (analyze_message_text env_happy schastje world0)) \<noteq>
       request_history world0"
    by (simp_all add: channels_happy analyze_word_happy world0_simps)
  have empty: "request_history world0 = []"
    by (simp add: world0_def)
  from history_sources_of_channels [of env_happy schastje world0] changed
  show ?thesis by (auto simp: empty)
qed

section \<open>A completed request need not be cached\<close>

text \<open>
  C9. When, on a miss, the backend knows the word but returns no synonyms and no
  antonyms, the request completes with an empty list and no error, no row is written,
  and the next request for the word misses again and invokes the chain again.
\<close>

theorem empty_generation_not_cached:
  assumes "env_select env1 = None"
    and "env_create_commit env1 = None" and "env_create_refresh env1 = None"
    and "find (\<lambda>row. wd_word row = lower (strip word)) (word_dictionary db) = None"
    and "env_llm env1 = Returns response" and "is_exists response"
    and "synonyms response = []" and "antonyms response = []"
    and "db1 = snd (analyze_word env1 word source1 db)"
    and "env_select env2 = None"
  shows "fst (analyze_word env1 word source1 db) =
           \<lparr>result = Some [], error = None, status = COMPLETED\<rparr> \<and>
         word_dictionary db1 = word_dictionary db \<and>
         find (\<lambda>row. wd_word row = lower (strip word)) (word_dictionary db1) = None \<and>
         llm_invocations db1 = llm_invocations db @ [lower (strip word)] \<and>
         llm_invocations (snd (analyze_word env2 word source2 db1)) =
           llm_invocations db1 @ [lower (strip word)]"
proof -
  have gen: "fst (process_analysis env1
      \<lparr>gs_word = lower (strip word), gs_result = None, gs_error = None\<rparr> db) = ResultUpdate []"
    using process_analysis_returns [OF assms(5) assms(6)] assms(7) assms(8) by simp
  note first = analyze_word_miss_not_generated [OF assms(1) assms(4) gen _ assms(2) assms(3),
      of source1, simplified]
  have rows: "word_dictionary db1 = word_dictionary db"
    by (simp add: assms(9) first)
  have again: "llm_invocations (snd (analyze_word env2 word source2 db1)) =
      llm_invocations db1 @ [lower (strip word)]"
    by (simp add: analyze_word_llm assms(10) rows assms(4))
  show ?thesis
    using again by (simp add: first rows assms(4) assms(9))
qed

theorem empty_generation_not_cached_witness:
  "fst (analyze_word env0 kot (ascii ''web'') world0) =
     \<lparr>result = Some [], error = None, status = COMPLETED\<rparr> \<and>
   word_dictionary (snd (analyze_word env0 kot (ascii ''web'') world0)) = word_dictionary world0 \<and>
   find (\<lambda>row. wd_word row = lower (strip kot))
     (word_dictionary (snd (analyze_word env0 kot (ascii ''web'') world0))) = None \<and>
   llm_invocations (snd (analyze_word env0 kot (ascii ''web'') world0)) =
     llm_invocations world0 @ [lower (strip kot)] \<and>
   llm_invocations (snd (analyze_word env0 kot (ascii ''api'')
                           (snd (analyze_word env0 kot (ascii ''web'') world0)))) =
     llm_invocations (snd (analyze_word env0 kot (ascii ''web'') world0)) @ [lower (strip kot)]"
proof -
  have miss: "find (\<lambda>row. wd_word row = lower (strip kot)) (word_dictionary world0) = None"
    by (simp add: world0_def)
  show ?thesis
    by (rule empty_generation_not_cached [OF env0_simps(1) env0_simps(4) env0_simps(5) miss
          env0_simps(6) _ _ _ refl env0_simps(1)]) simp_all
qed

section \<open>The service never raises\<close>

text \<open>
  C10. Whatever the collaborators do, the service returns a dictionary with the keys
  result, error and status; the status is COMPLETED or FAILED; and whenever an
  exception leaves the \<open>try\<close>, the result is \<open>None\<close>, the status is FAILED and the
  error is a string.
\<close>

theorem analyze_word_never_raises:
  "status (fst (analyze_word env word source db)) \<in> {COMPLETED, FAILED} \<and>
   (\<forall>e. fst (analyze_word_try env (lower (strip word)) source db) = Inl e \<longrightarrow>
        result (fst (analyze_word env word source db)) = None \<and>
        status (fst (analyze_word env word source db)) = FAILED \<and>
        (\<exists>message. error (fst (analyze_word env word source db)) = Some message))"
  using analyze_word_try_status [of env "lower (strip word)" source db]
    analyze_word_except_shape
  by (auto simp: analyze_word_fst split: sum.splits)

theorem analyze_word_never_raises_witness:
  "fst (analyze_word_try env_select_down (lower (strip kot)) (ascii ''web'') world0) =
     Inl (SQLAlchemyError (ascii ''connection refused'')) \<and>
   result (fst (analyze_word env_select_down kot (ascii ''web'') world0)) = None \<and>
   status (fst (analyze_word env_select_down kot (ascii ''web'') world0)) = FAILED \<and>
   (\<exists>message. error (fst (analyze_word env_select_down kot (ascii ''web'') world0)) =
      Some message)"
proof -
  have raised: "fst (analyze_word_try env_select_down (lower (strip kot)) (ascii ''web'') world0) =
      Inl (SQLAlchemyError (ascii ''connection refused''))"
    by (simp add: analyze_word_try_fst get_by_word_def env_select_down_def env0_def)
  from analyze_word_never_raises [of env_select_down kot "ascii ''web''" world0] raised
  show ?thesis by blast
qed

end
